theory Spec2Isabelle
  imports Main "HOL-Library.Word"
begin

unbundle bit_operations_syntax

section \<open>The MCP3221 driver (mcp3221.c)\<close>

text \<open>
  A shallow embedding of \<^verbatim>\<open>mcp3221.c\<close>, a Linux IIO driver for the Microchip MCP3221
  analog-to-digital converter. C integers are words of their width: \<^verbatim>\<open>u8\<close>, \<^verbatim>\<open>u16\<close>
  and \<^verbatim>\<open>u32\<close> are read with \<open>unat\<close>/\<open>uint\<close>, \<^verbatim>\<open>int\<close> (\<open>s32\<close>) with \<open>sint\<close>. The
  \<^verbatim>\<open>long mask\<close> selecting the channel attribute is only ever compared with
  constants, so it is an \<open>int\<close>; it is written \<open>msk\<close>, \<open>mask\<close> being a constant of
  the word library.
\<close>

type_synonym u8 = "8 word"
type_synonym u16 = "16 word"
type_synonym u32 = "32 word"
type_synonym s32 = "32 word"

subsection \<open>Constants of the kernel headers\<close>

text \<open>
  The driver includes them from the kernel tree; the values are those of
  \<^verbatim>\<open>include/uapi/asm-generic/errno-base.h\<close>, \<^verbatim>\<open>errno.h\<close>,
  \<^verbatim>\<open>include/linux/iio/types.h\<close>, \<^verbatim>\<open>include/linux/iio/iio.h\<close>,
  \<^verbatim>\<open>include/uapi/linux/i2c.h\<close>.
\<close>

definition ENOMEM :: s32 where "ENOMEM = 12"
definition EINVAL :: s32 where "EINVAL = 22"
definition EOPNOTSUPP :: s32 where "EOPNOTSUPP = 95"

definition IIO_CHAN_INFO_RAW :: int where "IIO_CHAN_INFO_RAW = 0"
definition IIO_CHAN_INFO_SCALE :: int where "IIO_CHAN_INFO_SCALE = 2"
definition IIO_CHAN_INFO_SAMP_FREQ :: int where "IIO_CHAN_INFO_SAMP_FREQ = 12"

definition IIO_VAL_INT :: s32 where "IIO_VAL_INT = 1"
definition IIO_VAL_INT_PLUS_MICRO :: s32 where "IIO_VAL_INT_PLUS_MICRO = 2"
definition IIO_VAL_INT_PLUS_NANO :: s32 where "IIO_VAL_INT_PLUS_NANO = 3"

definition I2C_FUNC_I2C :: u32 where "I2C_FUNC_I2C = 1"

definition INDIO_DIRECT_MODE :: s32 where "INDIO_DIRECT_MODE = 1"

subsection \<open>Data\<close>

text \<open>
  \<^verbatim>\<open>struct iio_chan_spec\<close> as far as \<^verbatim>\<open>MCP3221_CHAN\<close> fills it in; the type
  \<^verbatim>\<open>IIO_VOLTAGE\<close> is the only one used.
\<close>

datatype iio_chan_type = IIO_VOLTAGE

record iio_chan_spec =
  chan_type :: iio_chan_type
  indexed :: bool
  channel :: s32
  info_mask_separate :: "64 word"
  info_mask_shared_by_type :: "64 word"

text \<open>\<^verbatim>\<open>BIT(nr)\<close> is \<^verbatim>\<open>1UL << nr\<close>.\<close>

definition BIT :: "int \<Rightarrow> 64 word" where
  "BIT nr = push_bit (nat nr) 1"

definition MCP3221_CHAN :: "s32 \<Rightarrow> iio_chan_spec" where
  "MCP3221_CHAN index =
     \<lparr> chan_type = IIO_VOLTAGE, indexed = True, channel = index,
       info_mask_separate = BIT IIO_CHAN_INFO_RAW OR BIT IIO_CHAN_INFO_SCALE,
       info_mask_shared_by_type = BIT IIO_CHAN_INFO_SAMP_FREQ \<rparr>"

definition mcp3221_channels :: "iio_chan_spec list" where
  "mcp3221_channels = [MCP3221_CHAN 0]"

text \<open>
  \<^verbatim>\<open>struct i2c_adapter\<close> and \<^verbatim>\<open>struct i2c_client\<close>: the functionality bits the adapter
  reports, and the client's name.
\<close>

record i2c_adapter =
  functionality :: u32

record i2c_client =
  name :: string
  adapter :: i2c_adapter

text \<open>
  \<^verbatim>\<open>struct mcp3221\<close>, the client data. The mutex is its state: \<open>True\<close> while held.
\<close>

record mcp3221 =
  i2c :: i2c_client
  id :: u8
  lock :: bool

text \<open>
  \<^verbatim>\<open>struct iio_dev\<close> with the fields the probe sets; \<open>priv\<close> is the private data that
  \<^verbatim>\<open>iio_priv\<close> gives. The \<^verbatim>\<open>name\<close> of the device is \<open>dev_name\<close> here, \<open>name\<close> being the
  client's.
\<close>

record iio_dev =
  dev_name :: string
  modes :: s32
  channels :: "iio_chan_spec list"
  num_channels :: s32
  priv :: mcp3221

text \<open>
  The calls the driver makes into the kernel, in the order made, are logged; the log is
  how a statement says that a call happened, or did not.
\<close>

datatype kcall =
    Check_functionality
  | Device_alloc
  | Mutex_init
  | Device_register
  | Set_clientdata
  | Mutex_lock
  | Mutex_unlock
  | Master_recv nat

text \<open>
  The environment of the driver. The bus is outside the driver: \<open>bus k n\<close> is what the
  \<open>n\<close>-th receive on it does, the value \<^verbatim>\<open>i2c_master_recv\<close> returns (a negative errno
  or the number of bytes read) and the bytes it stores; \<open>xfers\<close> counts the receives
  done so far.
\<close>

record kernel =
  bus :: "nat \<Rightarrow> s32 \<times> u8 list"
  xfers :: nat
  calls :: "kcall list"

subsection \<open>Kernel helpers the driver calls\<close>

text \<open>
  These functions belong to the Linux kernel, not to the driver. Each is written after
  the kernel's own definition; the bus and the mutex, which the kernel implements on
  hardware and scheduler, are reduced to what the driver can observe of them.
\<close>

text \<open>\<^verbatim>\<open>get_unaligned_be16(&buf[i])\<close>: \<^verbatim>\<open>p[0] << 8 | p[1]\<close>.\<close>

definition get_unaligned_be16 :: "u8 list \<Rightarrow> nat \<Rightarrow> u16" where
  "get_unaligned_be16 buf i = push_bit 8 (ucast (buf ! i)) OR ucast (buf ! Suc i)"

text \<open>
  \<^verbatim>\<open>sign_extend32\<close> of \<^verbatim>\<open>include/linux/bitops.h\<close>:
  \<^verbatim>\<open>__u8 shift = 31 - index; return (__s32)(value << shift) >> shift;\<close>
  with an arithmetic shift right on the signed value.
\<close>

definition sign_extend32 :: "u32 \<Rightarrow> int \<Rightarrow> s32" where
  "sign_extend32 v index =
     (let shift = unat (word_of_int (31 - index) :: u8)
      in signed_drop_bit shift (push_bit shift v))"

text \<open>
  \<^verbatim>\<open>i2c_master_recv(client, buf, count)\<close>: one receive on the bus. At most \<open>count\<close>
  bytes are stored at the start of \<open>buf\<close>, the rest of \<open>buf\<close> stays as it was.
\<close>

definition i2c_master_recv ::
    "i2c_client \<Rightarrow> kernel \<Rightarrow> u8 list \<Rightarrow> nat \<Rightarrow> s32 \<times> u8 list \<times> kernel" where
  "i2c_master_recv client k buf count =
     (let (ret, data) = bus k (xfers k);
          n = min count (min (length data) (length buf))
      in (ret, take n data @ drop n buf,
          k\<lparr>xfers := Suc (xfers k), calls := calls k @ [Master_recv count]\<rparr>))"

text \<open>
  \<^verbatim>\<open>mutex_lock\<close> on a mutex that is held does not return in a sequential run: \<open>None\<close>.
\<close>

definition mutex_lock :: "mcp3221 \<Rightarrow> kernel \<Rightarrow> (mcp3221 \<times> kernel) option" where
  "mutex_lock adc k =
     (if lock adc then None
      else Some (adc\<lparr>lock := True\<rparr>, k\<lparr>calls := calls k @ [Mutex_lock]\<rparr>))"

definition mutex_unlock :: "mcp3221 \<Rightarrow> kernel \<Rightarrow> mcp3221 \<times> kernel" where
  "mutex_unlock adc k = (adc\<lparr>lock := False\<rparr>, k\<lparr>calls := calls k @ [Mutex_unlock]\<rparr>)"

text \<open>\<^verbatim>\<open>i2c_check_functionality(adap, func)\<close>: \<^verbatim>\<open>(func & adap_func) == func\<close>.\<close>

definition i2c_check_functionality :: "i2c_adapter \<Rightarrow> u32 \<Rightarrow> bool" where
  "i2c_check_functionality adap func = (func AND functionality adap = func)"

subsection \<open>The driver\<close>

text \<open>
  An \<^verbatim>\<open>int *\<close> out-parameter is a slot: the function takes what the slot holds and
  returns what it holds afterwards.
\<close>

definition mcp3221_read :: "mcp3221 \<Rightarrow> kernel \<Rightarrow> s32 \<Rightarrow> s32 \<times> s32 \<times> kernel" where
  "mcp3221_read adc k value =
     (let buf = [0, 0, 0, 0];
          (ret, buf, k) = i2c_master_recv (i2c adc) k buf 2;
          temp = (ucast (get_unaligned_be16 buf 0) :: u32);
          value = sign_extend32 temp 11
      in (ret, value, k))"

definition mcp3221_read_channel ::
    "mcp3221 \<Rightarrow> kernel \<Rightarrow> iio_chan_spec \<Rightarrow> s32 \<Rightarrow> (s32 \<times> s32 \<times> mcp3221 \<times> kernel) option" where
  "mcp3221_read_channel adc k chan value =
     (let req_channel = (ucast (channel chan) :: u8)
      in case mutex_lock adc k of
           None \<Rightarrow> None
         | Some (adc, k) \<Rightarrow>
             (let (ret, value, k) = mcp3221_read adc k value;
                  (adc, k) = mutex_unlock adc k
              in Some (ret, value, adc, k)))"

text \<open>
  The result of \<^verbatim>\<open>mcp3221_read_raw\<close>: the return value, the two slots, the device and
  the environment.
\<close>

definition mcp3221_read_raw ::
    "iio_dev \<Rightarrow> kernel \<Rightarrow> iio_chan_spec \<Rightarrow> s32 \<Rightarrow> s32 \<Rightarrow> int
       \<Rightarrow> (s32 \<times> s32 \<times> s32 \<times> iio_dev \<times> kernel) option" where
  "mcp3221_read_raw iio k chan val1 val2 msk =
     (let adc = priv iio
      in if msk = IIO_CHAN_INFO_RAW then
           (case mcp3221_read_channel adc k chan val1 of
              None \<Rightarrow> None
            | Some (err, val1, adc, k) \<Rightarrow>
                if sint err < 0 then Some (- EINVAL, val1, val2, iio\<lparr>priv := adc\<rparr>, k)
                else Some (IIO_VAL_INT, val1, val2, iio\<lparr>priv := adc\<rparr>, k))
         else if msk = IIO_CHAN_INFO_SCALE then
           Some (IIO_VAL_INT_PLUS_NANO, 0, ucast ((3300000000 :: 64 word) div 4096), iio, k)
         else if msk = IIO_CHAN_INFO_SAMP_FREQ then
           Some (IIO_VAL_INT, 5500, val2, iio, k)
         else Some (- EINVAL, val1, val2, iio, k))"

definition mcp3221_write_raw ::
    "iio_dev \<Rightarrow> kernel \<Rightarrow> iio_chan_spec \<Rightarrow> s32 \<Rightarrow> s32 \<Rightarrow> int \<Rightarrow> s32 \<times> iio_dev \<times> kernel" where
  "mcp3221_write_raw iio k chan val1 val2 msk =
     (let adc = priv iio
      in if msk = IIO_CHAN_INFO_SCALE then (- EINVAL, iio, k)
         else if msk = IIO_CHAN_INFO_SAMP_FREQ then (- EINVAL, iio, k)
         else (- EINVAL, iio, k))"

definition mcp3221_write_raw_get_fmt :: "iio_dev \<Rightarrow> iio_chan_spec \<Rightarrow> int \<Rightarrow> s32" where
  "mcp3221_write_raw_get_fmt indio_dev chan msk =
     (if msk = IIO_CHAN_INFO_SCALE then IIO_VAL_INT_PLUS_NANO
      else if msk = IIO_CHAN_INFO_SAMP_FREQ then IIO_VAL_INT_PLUS_MICRO
      else - EINVAL)"

text \<open>
  \<^verbatim>\<open>mcp3221_probe\<close>. Whether \<^verbatim>\<open>devm_iio_device_alloc\<close> gets memory and what
  \<^verbatim>\<open>devm_iio_device_register\<close> returns is the kernel's answer, given as \<open>alloc_ok\<close> and
  \<open>register_err\<close>. The allocation is zeroed, so the fields the probe does not set
  (\<open>id\<close> among them) are 0. A device that is allocated and then not registered is
  released with the failed probe. The result is the return value, the device bound
  afterwards, if any, and the environment.
\<close>

definition mcp3221_probe ::
    "i2c_client \<Rightarrow> kernel \<Rightarrow> bool \<Rightarrow> s32 \<Rightarrow> s32 \<times> iio_dev option \<times> kernel" where
  "mcp3221_probe client k alloc_ok register_err =
     (let k = k\<lparr>calls := calls k @ [Check_functionality]\<rparr>
      in if \<not> i2c_check_functionality (adapter client) I2C_FUNC_I2C
         then (- EOPNOTSUPP, None, k)
         else
           (let k = k\<lparr>calls := calls k @ [Device_alloc]\<rparr>
            in if \<not> alloc_ok then (- ENOMEM, None, k)
               else
                 (let adc = \<lparr> i2c = client, id = 0, lock = False \<rparr>;
                      k = k\<lparr>calls := calls k @ [Mutex_init]\<rparr>;
                      indio_dev = \<lparr> dev_name = name client, modes = INDIO_DIRECT_MODE,
                                    channels = mcp3221_channels, num_channels = 1,
                                    priv = adc \<rparr>;
                      err = register_err;
                      k = k\<lparr>calls := calls k @ [Device_register]\<rparr>
                  in if sint err < 0 then (err, None, k)
                     else (0, Some indio_dev, k\<lparr>calls := calls k @ [Set_clientdata]\<rparr>))))"

subsection \<open>Test doubles\<close>

text \<open>
  A bus that answers the first receives from a script and every later one with a fixed
  reply, a fresh environment on such a bus, an adapter with plain I2C and one without
  (SMBus only), and the device the probe binds on the first.
\<close>

definition scripted_bus :: "(s32 \<times> u8 list) list \<Rightarrow> s32 \<times> u8 list \<Rightarrow> nat \<Rightarrow> s32 \<times> u8 list" where
  "scripted_bus script reply n = (if n < length script then script ! n else reply)"

definition test_kernel :: "(s32 \<times> u8 list) list \<Rightarrow> s32 \<times> u8 list \<Rightarrow> kernel" where
  "test_kernel script reply = \<lparr> bus = scripted_bus script reply, xfers = 0, calls = [] \<rparr>"

definition i2c_client_full :: i2c_client where
  "i2c_client_full = \<lparr> name = ''mcp3221'', adapter = \<lparr> functionality = 0x0EFF0009 \<rparr> \<rparr>"

definition i2c_client_smbus :: i2c_client where
  "i2c_client_smbus = \<lparr> name = ''mcp3221'', adapter = \<lparr> functionality = 0x0EFF0008 \<rparr> \<rparr>"

definition test_dev :: iio_dev where
  "test_dev = \<lparr> dev_name = ''mcp3221'', modes = INDIO_DIRECT_MODE,
                channels = mcp3221_channels, num_channels = 1,
                priv = \<lparr> i2c = i2c_client_full, id = 0, lock = False \<rparr> \<rparr>"

text \<open>The same device while another caller holds its lock.\<close>

definition test_dev_held :: iio_dev where
  "test_dev_held = test_dev\<lparr>priv := (priv test_dev)\<lparr>lock := True\<rparr>\<rparr>"

section \<open>Properties\<close>

subsection \<open>Sign extension at bit 11\<close>

lemma shift_pair_is_signed_take_bit:
  "signed_drop_bit 20 (push_bit 20 (w :: u32)) = signed_take_bit 11 w"
  by (rule bit_word_eqI) (auto simp add: bit_simps)

lemma sign_extend32_11: "sign_extend32 v 11 = signed_take_bit 11 v"
  by (simp add: sign_extend32_def shift_pair_is_signed_take_bit)

lemma sint_signed_take_bit_11:
  "sint (signed_take_bit 11 (w :: u32)) = signed_take_bit 11 (uint w)"
  by (rule bit_eqI) (auto simp add: bit_simps min_def)

lemma signed_take_bit_11_int:
  "signed_take_bit 11 (t :: int) = (if bit t 11 then t mod 4096 - 4096 else t mod 4096)"
proof (cases "bit t 11")
  case True
  have "take_bit 12 t = take_bit 11 t + 2048"
    using True by (simp add: take_bit_Suc_from_most [of 11 t, simplified])
  with True show ?thesis
    by (simp add: signed_take_bit_eq_take_bit_minus take_bit_eq_mod)
next
  case False
  have "take_bit 12 t = take_bit 11 t"
    using False by (simp add: take_bit_Suc_from_most [of 11 t, simplified])
  with False show ?thesis
    by (simp add: signed_take_bit_eq_if_positive take_bit_eq_mod)
qed

lemma uint_ucast_16_32: "uint (ucast (t :: u16) :: u32) = uint t"
  by (rule bit_eqI) (auto simp add: bit_simps dest: bit_imp_le_length)

lemma sint_sign_extend32_be16:
  "sint (sign_extend32 (ucast (t :: u16)) 11) =
     (if bit (uint t) 11 then uint t mod 4096 - 4096 else uint t mod 4096)"
  by (simp only: sign_extend32_11 sint_signed_take_bit_11 uint_ucast_16_32
        signed_take_bit_11_int)

subsection \<open>Big-endian\<close>

lemma uint_push_bit_8: "uint (push_bit 8 (ucast (b :: u8)) :: u16) = push_bit 8 (uint b)"
  by (rule bit_eqI) (auto simp add: bit_simps dest: bit_imp_le_length)

lemma uint_ucast_8_16: "uint (ucast (b :: u8) :: u16) = uint b"
  by (rule bit_eqI) (auto simp add: bit_simps dest: bit_imp_le_length)

lemma uint_get_unaligned_be16:
  "uint (get_unaligned_be16 (b0 # b1 # bs) 0) = 256 * uint b0 + uint b1"
proof -
  have "uint b1 < 2 ^ 8"
    using uint_bounded [of b1] by simp
  then have low: "take_bit 8 (uint b1) = uint b1"
    by (simp add: take_bit_int_eq_self)
  have "uint (get_unaligned_be16 (b0 # b1 # bs) 0) = concat_bit 8 (uint b1) (uint b0)"
    by (simp add: get_unaligned_be16_def uint_or uint_push_bit_8 uint_ucast_8_16
          concat_bit_def or.commute low)
  also have "\<dots> = 256 * uint b0 + uint b1"
    by (simp add: concat_bit_eq push_bit_eq_mult low)
  finally show ?thesis .
qed

subsection \<open>What one read does\<close>

lemma i2c_master_recv_two:
  "bus k (xfers k) = (ret, [b0, b1]) \<Longrightarrow>
   i2c_master_recv c k [0, 0, 0, 0] 2 =
     (ret, [b0, b1, 0, 0], k\<lparr>xfers := Suc (xfers k), calls := calls k @ [Master_recv 2]\<rparr>)"
  by (simp add: i2c_master_recv_def)

lemma mcp3221_read_two:
  "bus k (xfers k) = (ret, [b0, b1]) \<Longrightarrow>
   mcp3221_read adc k v =
     (ret, sign_extend32 (ucast (get_unaligned_be16 [b0, b1, 0, 0] 0)) 11,
      k\<lparr>xfers := Suc (xfers k), calls := calls k @ [Master_recv 2]\<rparr>)"
  by (simp add: mcp3221_read_def i2c_master_recv_two)


lemma mcp3221_read_ret: "fst (mcp3221_read adc k v) = fst (bus k (xfers k))"
  by (simp add: mcp3221_read_def i2c_master_recv_def Let_def split: prod.splits)

lemma mcp3221_read_kernel:
  "snd (snd (mcp3221_read adc k v)) =
     k\<lparr>xfers := Suc (xfers k), calls := calls k @ [Master_recv 2]\<rparr>"
  by (simp add: mcp3221_read_def i2c_master_recv_def Let_def split: prod.splits)

lemma mcp3221_read_cong:
  "bus k' = bus k \<Longrightarrow> xfers k' = xfers k \<Longrightarrow>
   fst (snd (mcp3221_read adc' k' v')) = fst (snd (mcp3221_read adc k v))"
  by (simp add: mcp3221_read_def i2c_master_recv_def Let_def split: prod.splits)

lemma mcp3221_read_channel_free:
  assumes "\<not> lock adc"
  shows "mcp3221_read_channel adc k chan v =
           Some (fst (bus k (xfers k)), fst (snd (mcp3221_read adc k v)), adc,
                 k\<lparr>xfers := Suc (xfers k),
                   calls := calls k @ [Mutex_lock, Master_recv 2, Mutex_unlock]\<rparr>)"
proof -
  let ?adc = "adc\<lparr>lock := True\<rparr>"
  let ?k = "k\<lparr>calls := calls k @ [Mutex_lock]\<rparr>"
  have l: "mutex_lock adc k = Some (?adc, ?k)"
    using assms by (simp add: mutex_lock_def)
  have same: "?adc\<lparr>lock := False\<rparr> = adc"
    using assms by (cases adc) simp
  obtain ret val k1 where r: "mcp3221_read ?adc ?k v = (ret, val, k1)"
    by (cases "mcp3221_read ?adc ?k v") auto
  have ret: "ret = fst (bus k (xfers k))"
    using mcp3221_read_ret [of ?adc ?k v] r by simp
  have val: "val = fst (snd (mcp3221_read adc k v))"
    using mcp3221_read_cong [of ?k k ?adc v adc v] r by simp
  have k1: "k1 = k\<lparr>xfers := Suc (xfers k), calls := calls k @ [Mutex_lock, Master_recv 2]\<rparr>"
    using mcp3221_read_kernel [of ?adc ?k v] r by simp
  show ?thesis
    by (simp add: mcp3221_read_channel_def l r mutex_unlock_def same ret val k1)
qed

lemma mcp3221_read_channel_held: "lock adc \<Longrightarrow> mcp3221_read_channel adc k chan v = None"
  by (simp add: mcp3221_read_channel_def mutex_lock_def)

lemma mcp3221_read_raw_RAW_free:
  assumes "\<not> lock (priv iio)"
  shows "mcp3221_read_raw iio k chan v1 v2 IIO_CHAN_INFO_RAW =
           Some (if sint (fst (bus k (xfers k))) < 0 then - EINVAL else IIO_VAL_INT,
                 fst (snd (mcp3221_read (priv iio) k v1)), v2, iio,
                 k\<lparr>xfers := Suc (xfers k),
                   calls := calls k @ [Mutex_lock, Master_recv 2, Mutex_unlock]\<rparr>)"
  by (simp add: mcp3221_read_raw_def mcp3221_read_channel_free [OF assms])

lemma mcp3221_read_raw_RAW_held:
  "lock (priv iio) \<Longrightarrow> mcp3221_read_raw iio k chan v1 v2 IIO_CHAN_INFO_RAW = None"
  by (simp add: mcp3221_read_raw_def mcp3221_read_channel_held)

lemma mcp3221_read_locked_steps:
  assumes "\<not> lock adc"
  shows "mutex_lock adc k = Some (adc\<lparr>lock := True\<rparr>, k\<lparr>calls := calls k @ [Mutex_lock]\<rparr>)"
    and "mcp3221_read (adc\<lparr>lock := True\<rparr>) (k\<lparr>calls := calls k @ [Mutex_lock]\<rparr>) v =
           (fst (bus k (xfers k)), fst (snd (mcp3221_read adc k v)),
            k\<lparr>xfers := Suc (xfers k), calls := calls k @ [Mutex_lock, Master_recv 2]\<rparr>)"
    and "mutex_unlock (adc\<lparr>lock := True\<rparr>)
           (k\<lparr>xfers := Suc (xfers k), calls := calls k @ [Mutex_lock, Master_recv 2]\<rparr>) =
           (adc, k\<lparr>xfers := Suc (xfers k),
                   calls := calls k @ [Mutex_lock, Master_recv 2, Mutex_unlock]\<rparr>)"
proof -
  let ?adc = "adc\<lparr>lock := True\<rparr>"
  let ?k = "k\<lparr>calls := calls k @ [Mutex_lock]\<rparr>"
  show "mutex_lock adc k = Some (?adc, ?k)"
    using assms by (simp add: mutex_lock_def)
  have same: "?adc\<lparr>lock := False\<rparr> = adc"
    using assms by (cases adc) simp
  obtain ret val k1 where r: "mcp3221_read ?adc ?k v = (ret, val, k1)"
    by (cases "mcp3221_read ?adc ?k v") auto
  have ret: "ret = fst (bus k (xfers k))"
    using mcp3221_read_ret [of ?adc ?k v] r by simp
  have val: "val = fst (snd (mcp3221_read adc k v))"
    using mcp3221_read_cong [of ?k k ?adc v adc v] r by simp
  have k1: "k1 = k\<lparr>xfers := Suc (xfers k), calls := calls k @ [Mutex_lock, Master_recv 2]\<rparr>"
    using mcp3221_read_kernel [of ?adc ?k v] r by simp
  show "mcp3221_read ?adc ?k v =
           (fst (bus k (xfers k)), fst (snd (mcp3221_read adc k v)),
            k\<lparr>xfers := Suc (xfers k), calls := calls k @ [Mutex_lock, Master_recv 2]\<rparr>)"
    by (simp add: r ret val k1)
  show "mutex_unlock ?adc
           (k\<lparr>xfers := Suc (xfers k), calls := calls k @ [Mutex_lock, Master_recv 2]\<rparr>) =
           (adc, k\<lparr>xfers := Suc (xfers k),
                   calls := calls k @ [Mutex_lock, Master_recv 2, Mutex_unlock]\<rparr>)"
    by (simp add: mutex_unlock_def same)
qed

subsection \<open>The other attributes, and the probe\<close>

lemma mcp3221_read_raw_SCALE:
  "mcp3221_read_raw iio k chan v1 v2 IIO_CHAN_INFO_SCALE =
     Some (IIO_VAL_INT_PLUS_NANO, 0, 805664, iio, k)"
  by (simp add: mcp3221_read_raw_def IIO_CHAN_INFO_SCALE_def IIO_CHAN_INFO_RAW_def)

lemma mcp3221_read_raw_SAMP_FREQ:
  "mcp3221_read_raw iio k chan v1 v2 IIO_CHAN_INFO_SAMP_FREQ =
     Some (IIO_VAL_INT, 5500, v2, iio, k)"
  by (simp add: mcp3221_read_raw_def IIO_CHAN_INFO_SCALE_def IIO_CHAN_INFO_RAW_def
        IIO_CHAN_INFO_SAMP_FREQ_def)

lemma mcp3221_read_raw_default:
  "msk \<notin> {IIO_CHAN_INFO_RAW, IIO_CHAN_INFO_SCALE, IIO_CHAN_INFO_SAMP_FREQ} \<Longrightarrow>
   mcp3221_read_raw iio k chan v1 v2 msk = Some (- EINVAL, v1, v2, iio, k)"
  by (simp add: mcp3221_read_raw_def)

lemma mcp3221_write_raw_EINVAL: "mcp3221_write_raw iio k chan v1 v2 msk = (- EINVAL, iio, k)"
  by (simp add: mcp3221_write_raw_def)

lemma sint_errnos:
  "sint (- EINVAL) = - 22" "sint (- EOPNOTSUPP) = - 95" "sint (- ENOMEM) = - 12"
  by (simp_all add: EINVAL_def EOPNOTSUPP_def ENOMEM_def)

lemma mcp3221_probe_unsupported:
  "\<not> i2c_check_functionality (adapter client) I2C_FUNC_I2C \<Longrightarrow>
   mcp3221_probe client k alloc_ok register_err =
     (- EOPNOTSUPP, None, k\<lparr>calls := calls k @ [Check_functionality]\<rparr>)"
  by (simp add: mcp3221_probe_def)

lemma mcp3221_probe_checks_once:
  "count_list (calls (snd (snd (mcp3221_probe client k alloc_ok register_err))))
     Check_functionality = Suc (count_list (calls k) Check_functionality)"
  by (simp add: mcp3221_probe_def Let_def)

lemma mcp3221_read_raw_no_check:
  "mcp3221_read_raw iio k chan v1 v2 msk = Some (r, w1, w2, iio', k') \<Longrightarrow>
   count_list (calls k') Check_functionality = count_list (calls k) Check_functionality"
  by (auto simp add: mcp3221_read_raw_def mcp3221_read_channel_def mutex_lock_def
        mutex_unlock_def mcp3221_read_def i2c_master_recv_def Let_def
        split: if_splits option.splits prod.splits)

section \<open>The claims\<close>

text \<open>
  Claim C1. The two bytes of a receive, read as the unsigned big-endian 16-bit number
  \<open>temp\<close>, decode in \<^verbatim>\<open>mcp3221_read\<close> to the low 12 bits of \<open>temp\<close> when bit 11 of
  \<open>temp\<close> is clear and to the low 12 bits minus 4096, a negative number, when it is set.
  The bytes 00 64 decode to 100, 08 64 to -1948 and 0F FF to -1.
\<close>

theorem decode_sign_extends_bit_11:
  assumes "snd (bus k (xfers k)) = [b0, b1]" and "temp = 256 * uint b0 + uint b1"
  shows "sint (fst (snd (mcp3221_read adc k v))) =
           (if bit temp 11 then temp mod 4096 - 4096 else temp mod 4096)
         \<and> (bit temp 11 = (sint (fst (snd (mcp3221_read adc k v))) < 0))
         \<and> sint (fst (snd (mcp3221_read adc (test_kernel [] (2, [0x00, 0x64])) v))) = 100
         \<and> sint (fst (snd (mcp3221_read adc (test_kernel [] (2, [0x08, 0x64])) v))) = - 1948
         \<and> sint (fst (snd (mcp3221_read adc (test_kernel [] (2, [0x0F, 0xFF])) v))) = - 1"
proof -
  obtain ret where r: "bus k (xfers k) = (ret, [b0, b1])"
    using assms(1) by (cases "bus k (xfers k)") simp
  have v: "sint (fst (snd (mcp3221_read adc k v))) =
           (if bit temp 11 then temp mod 4096 - 4096 else temp mod 4096)"
    by (simp add: mcp3221_read_two [OF r] sint_sign_extend32_be16 uint_get_unaligned_be16
          assms(2))
  have "0 \<le> temp mod 4096" "temp mod 4096 < 4096"
    by simp_all
  with v have n: "bit temp 11 = (sint (fst (snd (mcp3221_read adc k v))) < 0)"
    by auto
  have e1: "sint (fst (snd (mcp3221_read adc (test_kernel [] (2, [0x00, 0x64])) v))) = 100"
    by (simp add: mcp3221_read_def i2c_master_recv_def test_kernel_def scripted_bus_def
          get_unaligned_be16_def sign_extend32_def)
  have e2: "sint (fst (snd (mcp3221_read adc (test_kernel [] (2, [0x08, 0x64])) v))) = - 1948"
    by (simp add: mcp3221_read_def i2c_master_recv_def test_kernel_def scripted_bus_def
          get_unaligned_be16_def sign_extend32_def)
  have e3: "sint (fst (snd (mcp3221_read adc (test_kernel [] (2, [0x0F, 0xFF])) v))) = - 1"
    by (simp add: mcp3221_read_def i2c_master_recv_def test_kernel_def scripted_bus_def
          get_unaligned_be16_def sign_extend32_def)
  from v n e1 e2 e3 show ?thesis by blast
qed

theorem decode_sign_extends_bit_11_witness:
  "snd (bus (test_kernel [] (2, [0x08, 0x64])) (xfers (test_kernel [] (2, [0x08, 0x64]))))
     = [0x08, 0x64]
   \<and> (2148 :: int) = 256 * uint (0x08 :: u8) + uint (0x64 :: u8)
   \<and> sint (fst (snd (mcp3221_read (priv test_dev) (test_kernel [] (2, [0x08, 0x64])) 7)))
       = 2148 - 4096"
  using decode_sign_extends_bit_11
    [of "test_kernel [] (2, [0x08, 0x64])" "0x08" "0x64" 2148 "priv test_dev" 7]
  by (simp add: test_kernel_def scripted_bus_def)

text \<open>
  Claim C2. A read of the SCALE attribute returns the pair (0, 805664) with the format
  \<^verbatim>\<open>IIO_VAL_INT_PLUS_NANO\<close>, for every device and environment, changes neither, and
  does so after a RAW read as well. 805664 is the integer quotient of 3300000000 by
  4096, computed in integers.
\<close>

theorem scale_is_constant:
  "mcp3221_read_raw iio k chan v1 v2 IIO_CHAN_INFO_SCALE =
     Some (IIO_VAL_INT_PLUS_NANO, 0, 805664, iio, k)
   \<and> sint (805664 :: s32) = 3300000000 div 4096
   \<and> IIO_VAL_INT_PLUS_NANO \<noteq> IIO_VAL_INT
   \<and> IIO_VAL_INT_PLUS_NANO \<noteq> IIO_VAL_INT_PLUS_MICRO
   \<and> (mcp3221_read_raw iio k chan v1 v2 IIO_CHAN_INFO_RAW = Some (r, w1, w2, iio', k') \<longrightarrow>
        mcp3221_read_raw iio' k' chan w1 w2 IIO_CHAN_INFO_SCALE =
          Some (IIO_VAL_INT_PLUS_NANO, 0, 805664, iio', k'))"
  by (simp add: mcp3221_read_raw_SCALE IIO_VAL_INT_PLUS_NANO_def IIO_VAL_INT_def
        IIO_VAL_INT_PLUS_MICRO_def)

theorem scale_is_constant_witness:
  "mcp3221_read_raw test_dev (test_kernel [] (2, [0x08, 0x64])) (MCP3221_CHAN 0) 7 9
     IIO_CHAN_INFO_RAW =
     Some (IIO_VAL_INT, - 1948, 9, test_dev,
           \<lparr>bus = scripted_bus [] (2, [0x08, 0x64]), xfers = 1,
             calls = [Mutex_lock, Master_recv 2, Mutex_unlock]\<rparr>)
   \<and> mcp3221_read_raw test_dev
         \<lparr>bus = scripted_bus [] (2, [0x08, 0x64]), xfers = 1,
           calls = [Mutex_lock, Master_recv 2, Mutex_unlock]\<rparr>
         (MCP3221_CHAN 0) (- 1948) 9 IIO_CHAN_INFO_SCALE =
       Some (IIO_VAL_INT_PLUS_NANO, 0, 805664, test_dev,
             \<lparr>bus = scripted_bus [] (2, [0x08, 0x64]), xfers = 1,
               calls = [Mutex_lock, Master_recv 2, Mutex_unlock]\<rparr>)"
proof -
  have raw: "mcp3221_read_raw test_dev (test_kernel [] (2, [0x08, 0x64])) (MCP3221_CHAN 0) 7 9
     IIO_CHAN_INFO_RAW =
     Some (IIO_VAL_INT, - 1948, 9, test_dev,
           \<lparr>bus = scripted_bus [] (2, [0x08, 0x64]), xfers = 1,
             calls = [Mutex_lock, Master_recv 2, Mutex_unlock]\<rparr>)"
    by (simp add: mcp3221_read_raw_def mcp3221_read_channel_def mutex_lock_def
          mutex_unlock_def mcp3221_read_def i2c_master_recv_def test_kernel_def
          scripted_bus_def test_dev_def get_unaligned_be16_def sign_extend32_def
          IIO_CHAN_INFO_RAW_def)
  from raw scale_is_constant
    [of test_dev "test_kernel [] (2, [0x08, 0x64])" "MCP3221_CHAN 0" 7 9 IIO_VAL_INT
        "- 1948" 9 test_dev
        "\<lparr>bus = scripted_bus [] (2, [0x08, 0x64]), xfers = 1,
          calls = [Mutex_lock, Master_recv 2, Mutex_unlock]\<rparr>"]
  show ?thesis by simp
qed

text \<open>
  Claim C3. A read of the SAMP_FREQ attribute returns the integer 5500 with the format
  \<^verbatim>\<open>IIO_VAL_INT\<close>, for every device and environment; it changes neither of them nor
  the second slot, and its return value is not an error.
\<close>

theorem samp_freq_is_constant:
  "mcp3221_read_raw iio k chan v1 v2 IIO_CHAN_INFO_SAMP_FREQ =
     Some (IIO_VAL_INT, 5500, v2, iio, k)
   \<and> sint (5500 :: s32) = 5500
   \<and> sint IIO_VAL_INT = 1"
  by (simp add: mcp3221_read_raw_SAMP_FREQ IIO_VAL_INT_def)

text \<open>
  Claim C4. A RAW read takes the lock and gives it back before it returns. On a device
  whose lock is free \<^verbatim>\<open>mutex_lock\<close> yields the device with the lock held, the receive
  of 2 bytes runs on that device, and \<^verbatim>\<open>mutex_unlock\<close> after it yields the device
  with the lock free, whether the receive failed or not; these are the only calls, in
  this order. When the receive failed (a negative return) the caller gets
  \<^verbatim>\<open>-EINVAL\<close>, which is not the success value, and a following RAW read is not
  blocked. On a device whose lock is held the read waits: it does not return and starts
  no receive.
\<close>

theorem read_raw_releases_lock:
  "(lock (priv iio) \<longrightarrow>
      mcp3221_read_channel (priv iio) k chan v1 = None
      \<and> mcp3221_read_raw iio k chan v1 v2 IIO_CHAN_INFO_RAW = None)
   \<and> (\<not> lock (priv iio) \<longrightarrow>
      (\<exists>adc1 k1 k2 r w1 iio' k'.
          mutex_lock (priv iio) k = Some (adc1, k1)
          \<and> lock adc1
          \<and> calls k1 = calls k @ [Mutex_lock]
          \<and> mcp3221_read adc1 k1 v1 = (fst (bus k (xfers k)), w1, k2)
          \<and> calls k2 = calls k1 @ [Master_recv 2]
          \<and> mutex_unlock adc1 k2 = (priv iio', k')
          \<and> mcp3221_read_channel (priv iio) k chan v1 =
              Some (fst (bus k (xfers k)), w1, priv iio', k')
          \<and> mcp3221_read_raw iio k chan v1 v2 IIO_CHAN_INFO_RAW = Some (r, w1, v2, iio', k')
          \<and> \<not> lock (priv iio')
          \<and> calls k' = calls k @ [Mutex_lock, Master_recv 2, Mutex_unlock]
          \<and> (sint (fst (bus k (xfers k))) < 0 \<longrightarrow>
                r = - EINVAL \<and> sint r = - 22 \<and> r \<noteq> IIO_VAL_INT)
          \<and> mcp3221_read_raw iio' k' chan w1 v2 IIO_CHAN_INFO_RAW \<noteq> None))"
proof (intro conjI impI)
  assume "lock (priv iio)"
  then show "mcp3221_read_channel (priv iio) k chan v1 = None"
    by (rule mcp3221_read_channel_held)
next
  assume "lock (priv iio)"
  then show "mcp3221_read_raw iio k chan v1 v2 IIO_CHAN_INFO_RAW = None"
    by (rule mcp3221_read_raw_RAW_held)
next
  assume free: "\<not> lock (priv iio)"
  let ?adc1 = "(priv iio)\<lparr>lock := True\<rparr>"
  let ?k1 = "k\<lparr>calls := calls k @ [Mutex_lock]\<rparr>"
  let ?k2 = "k\<lparr>xfers := Suc (xfers k), calls := calls k @ [Mutex_lock, Master_recv 2]\<rparr>"
  let ?k = "k\<lparr>xfers := Suc (xfers k),
               calls := calls k @ [Mutex_lock, Master_recv 2, Mutex_unlock]\<rparr>"
  let ?r = "if sint (fst (bus k (xfers k))) < 0 then - EINVAL else IIO_VAL_INT"
  let ?w = "fst (snd (mcp3221_read (priv iio) k v1))"
  note steps = mcp3221_read_locked_steps [OF free]
  have held: "lock ?adc1"
    by simp
  have log1: "calls ?k1 = calls k @ [Mutex_lock]"
    by simp
  have log2: "calls ?k2 = calls ?k1 @ [Master_recv 2]"
    by simp
  have first: "mcp3221_read_raw iio k chan v1 v2 IIO_CHAN_INFO_RAW = Some (?r, ?w, v2, iio, ?k)"
    by (rule mcp3221_read_raw_RAW_free [OF free])
  have chan: "mcp3221_read_channel (priv iio) k chan v1 =
                Some (fst (bus k (xfers k)), ?w, priv iio, ?k)"
    by (rule mcp3221_read_channel_free [OF free])
  have log: "calls ?k = calls k @ [Mutex_lock, Master_recv 2, Mutex_unlock]"
    by simp
  have err: "sint (fst (bus k (xfers k))) < 0 \<longrightarrow>
               ?r = - EINVAL \<and> sint ?r = - 22 \<and> ?r \<noteq> IIO_VAL_INT"
    by (simp add: EINVAL_def IIO_VAL_INT_def)
  have again: "mcp3221_read_raw iio ?k chan ?w v2 IIO_CHAN_INFO_RAW \<noteq> None"
    by (simp add: mcp3221_read_raw_RAW_free [OF free])
  from steps held log1 log2 first chan free log err again
  show "\<exists>adc1 k1 k2 r w1 iio' k'.
          mutex_lock (priv iio) k = Some (adc1, k1)
          \<and> lock adc1
          \<and> calls k1 = calls k @ [Mutex_lock]
          \<and> mcp3221_read adc1 k1 v1 = (fst (bus k (xfers k)), w1, k2)
          \<and> calls k2 = calls k1 @ [Master_recv 2]
          \<and> mutex_unlock adc1 k2 = (priv iio', k')
          \<and> mcp3221_read_channel (priv iio) k chan v1 =
              Some (fst (bus k (xfers k)), w1, priv iio', k')
          \<and> mcp3221_read_raw iio k chan v1 v2 IIO_CHAN_INFO_RAW = Some (r, w1, v2, iio', k')
          \<and> \<not> lock (priv iio')
          \<and> calls k' = calls k @ [Mutex_lock, Master_recv 2, Mutex_unlock]
          \<and> (sint (fst (bus k (xfers k))) < 0 \<longrightarrow>
                r = - EINVAL \<and> sint r = - 22 \<and> r \<noteq> IIO_VAL_INT)
          \<and> mcp3221_read_raw iio' k' chan w1 v2 IIO_CHAN_INFO_RAW \<noteq> None"
    by blast
qed

theorem read_raw_releases_lock_witness:
  "lock (priv test_dev_held)
   \<and> mcp3221_read_raw test_dev_held (test_kernel [(- 121, [])] (2, [0x00, 0x64]))
         (MCP3221_CHAN 0) 7 9 IIO_CHAN_INFO_RAW = None
   \<and> \<not> lock (priv test_dev)
   \<and> sint (fst (bus (test_kernel [(- 121, [])] (2, [0x00, 0x64]))
                    (xfers (test_kernel [(- 121, [])] (2, [0x00, 0x64]))))) < 0
   \<and> mutex_lock (priv test_dev) (test_kernel [(- 121, [])] (2, [0x00, 0x64])) =
       Some (\<lparr>i2c = i2c_client_full, id = 0, lock = True\<rparr>,
             \<lparr>bus = scripted_bus [(- 121, [])] (2, [0x00, 0x64]), xfers = 0,
               calls = [Mutex_lock]\<rparr>)
   \<and> mcp3221_read_raw test_dev (test_kernel [(- 121, [])] (2, [0x00, 0x64]))
         (MCP3221_CHAN 0) 7 9 IIO_CHAN_INFO_RAW =
       Some (- 22, 0, 9, test_dev,
             \<lparr>bus = scripted_bus [(- 121, [])] (2, [0x00, 0x64]), xfers = 1,
               calls = [Mutex_lock, Master_recv 2, Mutex_unlock]\<rparr>)
   \<and> mcp3221_read_raw test_dev
         \<lparr>bus = scripted_bus [(- 121, [])] (2, [0x00, 0x64]), xfers = 1,
           calls = [Mutex_lock, Master_recv 2, Mutex_unlock]\<rparr>
         (MCP3221_CHAN 0) 0 9 IIO_CHAN_INFO_RAW =
       Some (1, 100, 9, test_dev,
             \<lparr>bus = scripted_bus [(- 121, [])] (2, [0x00, 0x64]), xfers = 2,
               calls = [Mutex_lock, Master_recv 2, Mutex_unlock,
                        Mutex_lock, Master_recv 2, Mutex_unlock]\<rparr>)"
  using read_raw_releases_lock
    [of test_dev_held "test_kernel [(- 121, [])] (2, [0x00, 0x64])" "MCP3221_CHAN 0" 7 9]
    read_raw_releases_lock
    [of test_dev "test_kernel [(- 121, [])] (2, [0x00, 0x64])" "MCP3221_CHAN 0" 7 9]
  by (simp add: mcp3221_read_raw_def mcp3221_read_channel_def mutex_lock_def
        mutex_unlock_def mcp3221_read_def i2c_master_recv_def test_kernel_def
        scripted_bus_def test_dev_def test_dev_held_def get_unaligned_be16_def
        sign_extend32_def IIO_CHAN_INFO_RAW_def EINVAL_def IIO_VAL_INT_def)

text \<open>
  Claim C5. A read of an attribute other than RAW, SCALE and SAMP_FREQ, and a write with
  any mask and values, return \<^verbatim>\<open>-EINVAL\<close> and leave the slots, the device and the
  environment (the bus with it) as they were.
\<close>

theorem unsupported_requests_rejected:
  assumes "msk \<notin> {IIO_CHAN_INFO_RAW, IIO_CHAN_INFO_SCALE, IIO_CHAN_INFO_SAMP_FREQ}"
  shows "mcp3221_read_raw iio k chan v1 v2 msk = Some (- EINVAL, v1, v2, iio, k)
         \<and> mcp3221_write_raw iio k chan w1 w2 wmsk = (- EINVAL, iio, k)
         \<and> sint (- EINVAL) = - 22"
  by (simp add: mcp3221_read_raw_default [OF assms] mcp3221_write_raw_EINVAL sint_errnos)

theorem unsupported_requests_rejected_witness:
  "(1 :: int) \<notin> {IIO_CHAN_INFO_RAW, IIO_CHAN_INFO_SCALE, IIO_CHAN_INFO_SAMP_FREQ}
   \<and> mcp3221_read_raw test_dev (test_kernel [] (2, [0x00, 0x64])) (MCP3221_CHAN 0) 7 9 1 =
       Some (- 22, 7, 9, test_dev, test_kernel [] (2, [0x00, 0x64]))
   \<and> mcp3221_write_raw test_dev (test_kernel [] (2, [0x00, 0x64])) (MCP3221_CHAN 0) 3 4
         IIO_CHAN_INFO_SCALE =
       (- 22, test_dev, test_kernel [] (2, [0x00, 0x64]))"
  using unsupported_requests_rejected
    [of 1 test_dev "test_kernel [] (2, [0x00, 0x64])" "MCP3221_CHAN 0" 7 9 3 4
        IIO_CHAN_INFO_SCALE]
  by (simp add: IIO_CHAN_INFO_RAW_def IIO_CHAN_INFO_SCALE_def IIO_CHAN_INFO_SAMP_FREQ_def
        EINVAL_def)

text \<open>
  Claim C6. On an adapter without \<^verbatim>\<open>I2C_FUNC_I2C\<close> the probe returns \<^verbatim>\<open>-EOPNOTSUPP\<close>,
  binds no device and calls nothing but the check. Every probe makes the check exactly
  once; with the capability, memory and a successful registration it binds a device with
  a free lock. No read of any attribute makes the check.
\<close>

theorem probe_checks_capability_once:
  "(\<not> i2c_check_functionality (adapter client) I2C_FUNC_I2C \<longrightarrow>
      mcp3221_probe client k alloc_ok register_err =
        (- EOPNOTSUPP, None, k\<lparr>calls := calls k @ [Check_functionality]\<rparr>)
      \<and> sint (- EOPNOTSUPP) = - 95)
   \<and> count_list (calls (snd (snd (mcp3221_probe client k alloc_ok register_err))))
         Check_functionality = Suc (count_list (calls k) Check_functionality)
   \<and> (i2c_check_functionality (adapter client) I2C_FUNC_I2C \<and> alloc_ok
        \<and> 0 \<le> sint register_err \<longrightarrow>
        (\<exists>dev k'. mcp3221_probe client k alloc_ok register_err = (0, Some dev, k')
           \<and> i2c (priv dev) = client \<and> \<not> lock (priv dev)))
   \<and> (mcp3221_read_raw iio kr chan v1 v2 msk = Some (r, w1, w2, iio', kr') \<longrightarrow>
        count_list (calls kr') Check_functionality = count_list (calls kr) Check_functionality)"
proof -
  have made: "i2c_check_functionality (adapter client) I2C_FUNC_I2C \<and> alloc_ok
        \<and> 0 \<le> sint register_err \<longrightarrow>
        (\<exists>dev k'. mcp3221_probe client k alloc_ok register_err = (0, Some dev, k')
           \<and> i2c (priv dev) = client \<and> \<not> lock (priv dev))"
    by (simp add: mcp3221_probe_def Let_def)
  with mcp3221_probe_unsupported [of client k alloc_ok register_err]
    mcp3221_probe_checks_once [of client k alloc_ok register_err]
    mcp3221_read_raw_no_check [of iio kr chan v1 v2 msk r w1 w2 iio' kr']
  show ?thesis
    by (simp add: sint_errnos)
qed

theorem probe_checks_capability_once_witness:
  "\<not> i2c_check_functionality (adapter i2c_client_smbus) I2C_FUNC_I2C
   \<and> mcp3221_probe i2c_client_smbus (test_kernel [] (2, [0x00, 0x64])) True 0 =
       (- 95, None,
        \<lparr>bus = scripted_bus [] (2, [0x00, 0x64]), xfers = 0, calls = [Check_functionality]\<rparr>)
   \<and> i2c_check_functionality (adapter i2c_client_full) I2C_FUNC_I2C
   \<and> mcp3221_probe i2c_client_full (test_kernel [] (2, [0x00, 0x64])) True 0 =
       (0, Some test_dev,
        \<lparr>bus = scripted_bus [] (2, [0x00, 0x64]), xfers = 0,
          calls = [Check_functionality, Device_alloc, Mutex_init, Device_register,
                   Set_clientdata]\<rparr>)
   \<and> mcp3221_read_raw test_dev
         \<lparr>bus = scripted_bus [] (2, [0x00, 0x64]), xfers = 0,
           calls = [Check_functionality, Device_alloc, Mutex_init, Device_register,
                    Set_clientdata]\<rparr>
         (MCP3221_CHAN 0) 0 0 IIO_CHAN_INFO_RAW =
       Some (1, 100, 0, test_dev,
         \<lparr>bus = scripted_bus [] (2, [0x00, 0x64]), xfers = 1,
           calls = [Check_functionality, Device_alloc, Mutex_init, Device_register,
                    Set_clientdata, Mutex_lock, Master_recv 2, Mutex_unlock]\<rparr>)"
  using probe_checks_capability_once
    [of i2c_client_smbus "test_kernel [] (2, [0x00, 0x64])" True 0]
    probe_checks_capability_once
    [of i2c_client_full "test_kernel [] (2, [0x00, 0x64])" True 0 test_dev
        "\<lparr>bus = scripted_bus [] (2, [0x00, 0x64]), xfers = 0,
           calls = [Check_functionality, Device_alloc, Mutex_init, Device_register,
                    Set_clientdata]\<rparr>"
        "MCP3221_CHAN 0" 0 0 IIO_CHAN_INFO_RAW 1 100 0 test_dev
        "\<lparr>bus = scripted_bus [] (2, [0x00, 0x64]), xfers = 1,
           calls = [Check_functionality, Device_alloc, Mutex_init, Device_register,
                    Set_clientdata, Mutex_lock, Master_recv 2, Mutex_unlock]\<rparr>"]
  by (simp add: mcp3221_probe_def i2c_check_functionality_def I2C_FUNC_I2C_def
        i2c_client_smbus_def i2c_client_full_def
        mcp3221_read_raw_def mcp3221_read_channel_def mutex_lock_def
        mutex_unlock_def mcp3221_read_def i2c_master_recv_def test_kernel_def
        scripted_bus_def test_dev_def get_unaligned_be16_def sign_extend32_def
        IIO_CHAN_INFO_RAW_def EOPNOTSUPP_def IIO_VAL_INT_def)

text \<open>
  Claim C7. Two reads that differ only in the channel descriptor passed give the same
  result, in \<^verbatim>\<open>mcp3221_read_channel\<close> and in \<^verbatim>\<open>mcp3221_read_raw\<close>: the same return
  value, slots, device and environment.
\<close>

theorem channel_is_ignored:
  "mcp3221_read_channel adc k chan1 v = mcp3221_read_channel adc k chan2 v
   \<and> mcp3221_read_raw iio k chan1 v1 v2 msk = mcp3221_read_raw iio k chan2 v1 v2 msk"
  by (simp add: mcp3221_read_raw_def mcp3221_read_channel_def)

text \<open>
  Claim C8. Decoding a 16-bit \<open>temp\<close> and decoding \<open>temp\<close> with bits 12 to 15 cleared
  give the same value, in \<^verbatim>\<open>sign_extend32\<close> at index 11 and so in \<^verbatim>\<open>mcp3221_read\<close>, where
  the top four bits of the first byte received make no difference.
\<close>

theorem decode_ignores_top_bits:
  "sign_extend32 (ucast (temp :: u16)) 11 = sign_extend32 (ucast (temp AND 0x0FFF)) 11
   \<and> fst (snd (mcp3221_read adc (k\<lparr>bus := (bus k)(xfers k := (r, [b0, b1]))\<rparr>) v)) =
       fst (snd (mcp3221_read adc (k\<lparr>bus := (bus k)(xfers k := (r, [b0 AND 0x0F, b1]))\<rparr>) v))"
proof -
  have m: "(0x0FFF :: u16) = mask 12"
    by (simp add: mask_eq_exp_minus_1)
  have a: "sign_extend32 (ucast t) 11 = sign_extend32 (ucast (t AND 0x0FFF)) 11" for t :: u16
    unfolding sign_extend32_11 m
    by (rule bit_word_eqI) (auto simp add: bit_simps)
  have m4: "(0x0F :: u8) = mask 4"
    by (simp add: mask_eq_exp_minus_1)
  have "get_unaligned_be16 [b0 AND 0x0F, b1, 0, 0] 0 = get_unaligned_be16 [b0, b1, 0, 0] 0 AND 0x0FFF"
    unfolding get_unaligned_be16_def m m4
    by (rule bit_word_eqI) (auto simp add: bit_simps dest: bit_imp_le_length)
  then have b: "sign_extend32 (ucast (get_unaligned_be16 [b0 AND 0x0F, b1, 0, 0] 0)) 11
              = sign_extend32 (ucast (get_unaligned_be16 [b0, b1, 0, 0] 0)) 11"
    using a [of "get_unaligned_be16 [b0, b1, 0, 0] 0"] by simp
  have "fst (snd (mcp3221_read adc (k\<lparr>bus := (bus k)(xfers k := (r, [c0, c1]))\<rparr>) v)) =
        sign_extend32 (ucast (get_unaligned_be16 [c0, c1, 0, 0] 0)) 11" for c0 c1
    by (simp add: mcp3221_read_two [of _ r c0 c1])
  with a b show ?thesis by simp
qed

text \<open>
  Claim C9, as stated, fails: on a bus whose receive fails with -121 (\<^verbatim>\<open>EREMOTEIO\<close>) a
  RAW read returns \<^verbatim>\<open>-EINVAL\<close>, the value that a read of an unsupported attribute
  (here 1, \<^verbatim>\<open>IIO_CHAN_INFO_PROCESSED\<close>) and a write return.
\<close>

theorem read_failure_is_EINVAL_too:
  "sint (fst (bus (test_kernel [] (- 121, [])) (xfers (test_kernel [] (- 121, []))))) < 0
   \<and> map_option fst (mcp3221_read_raw test_dev (test_kernel [] (- 121, []))
         (MCP3221_CHAN 0) 0 0 IIO_CHAN_INFO_RAW) = Some (- EINVAL)
   \<and> map_option fst (mcp3221_read_raw test_dev (test_kernel [] (- 121, []))
         (MCP3221_CHAN 0) 0 0 1) = Some (- EINVAL)
   \<and> fst (mcp3221_write_raw test_dev (test_kernel [] (- 121, []))
         (MCP3221_CHAN 0) 0 0 IIO_CHAN_INFO_SCALE) = - EINVAL"
  by (simp add: mcp3221_read_raw_def mcp3221_read_channel_def mutex_lock_def
        mutex_unlock_def mcp3221_read_def i2c_master_recv_def test_kernel_def
        scripted_bus_def test_dev_def mcp3221_write_raw_def
        IIO_CHAN_INFO_RAW_def IIO_CHAN_INFO_SCALE_def IIO_CHAN_INFO_SAMP_FREQ_def)

text \<open>
  Claim C9, amended. The probe on an adapter without the capability returns
  \<^verbatim>\<open>-EOPNOTSUPP\<close>, which differs from \<^verbatim>\<open>-EINVAL\<close>, the value returned by a RAW read
  whose receive failed. A read of an unsupported attribute and a write return
  \<^verbatim>\<open>-EINVAL\<close> too: \<^verbatim>\<open>mcp3221_read_raw\<close> replaces the errno of the bus, which only
  \<^verbatim>\<open>mcp3221_read_channel\<close> below it returns.
\<close>

theorem failures_as_returned:
  assumes "\<not> i2c_check_functionality (adapter client) I2C_FUNC_I2C"
    and "\<not> lock (priv iio)"
    and "sint (fst (bus k (xfers k))) < 0"
    and "msk \<notin> {IIO_CHAN_INFO_RAW, IIO_CHAN_INFO_SCALE, IIO_CHAN_INFO_SAMP_FREQ}"
  shows "fst (mcp3221_probe client k0 alloc_ok register_err) = - EOPNOTSUPP
         \<and> map_option fst (mcp3221_read_raw iio k chan v1 v2 IIO_CHAN_INFO_RAW) =
             Some (- EINVAL)
         \<and> map_option fst (mcp3221_read_raw iio k chan v1 v2 msk) = Some (- EINVAL)
         \<and> fst (mcp3221_write_raw iio k chan v1 v2 wmsk) = - EINVAL
         \<and> - EOPNOTSUPP \<noteq> - EINVAL
         \<and> map_option fst (mcp3221_read_channel (priv iio) k chan v1) =
             Some (fst (bus k (xfers k)))"
  using assms(3)
  by (simp add: mcp3221_probe_unsupported [OF assms(1)]
        mcp3221_read_raw_RAW_free [OF assms(2)] mcp3221_read_raw_default [OF assms(4)]
        mcp3221_write_raw_EINVAL mcp3221_read_channel_free [OF assms(2)]
        EOPNOTSUPP_def EINVAL_def)

theorem failures_as_returned_witness:
  "\<not> i2c_check_functionality (adapter i2c_client_smbus) I2C_FUNC_I2C
   \<and> \<not> lock (priv test_dev)
   \<and> sint (fst (bus (test_kernel [] (- 121, [])) (xfers (test_kernel [] (- 121, []))))) < 0
   \<and> (1 :: int) \<notin> {IIO_CHAN_INFO_RAW, IIO_CHAN_INFO_SCALE, IIO_CHAN_INFO_SAMP_FREQ}
   \<and> fst (mcp3221_probe i2c_client_smbus (test_kernel [] (- 121, [])) True 0) = - 95
   \<and> map_option fst (mcp3221_read_raw test_dev (test_kernel [] (- 121, []))
         (MCP3221_CHAN 0) 0 0 IIO_CHAN_INFO_RAW) = Some (- 22)
   \<and> map_option fst (mcp3221_read_raw test_dev (test_kernel [] (- 121, []))
         (MCP3221_CHAN 0) 0 0 1) = Some (- 22)
   \<and> fst (mcp3221_write_raw test_dev (test_kernel [] (- 121, []))
         (MCP3221_CHAN 0) 0 0 IIO_CHAN_INFO_SCALE) = - 22
   \<and> map_option fst (mcp3221_read_channel (priv test_dev)
         (test_kernel [] (- 121, [])) (MCP3221_CHAN 0) 0) = Some (- 121)"
proof -
  have c: "\<not> i2c_check_functionality (adapter i2c_client_smbus) I2C_FUNC_I2C"
    by (simp add: i2c_check_functionality_def I2C_FUNC_I2C_def i2c_client_smbus_def)
  have l: "\<not> lock (priv test_dev)"
    by (simp add: test_dev_def)
  have f: "sint (fst (bus (test_kernel [] (- 121, [])) (xfers (test_kernel [] (- 121, []))))) < 0"
    by (simp add: test_kernel_def scripted_bus_def)
  have m: "(1 :: int) \<notin> {IIO_CHAN_INFO_RAW, IIO_CHAN_INFO_SCALE, IIO_CHAN_INFO_SAMP_FREQ}"
    by (simp add: IIO_CHAN_INFO_RAW_def IIO_CHAN_INFO_SCALE_def IIO_CHAN_INFO_SAMP_FREQ_def)
  have b: "fst (bus (test_kernel [] (- 121, [])) (xfers (test_kernel [] (- 121, [])))) = - 121"
    by (simp add: test_kernel_def scripted_bus_def)
  from failures_as_returned [OF c l f m, of "test_kernel [] (- 121, [])" True 0
      "MCP3221_CHAN 0" 0 0 IIO_CHAN_INFO_SCALE] c l f m b
  show ?thesis
    by (simp only: EOPNOTSUPP_def EINVAL_def) simp
qed

text \<open>
  Claim C10, as stated, fails: a receive that fails with -121 after it stored the bytes
  0F FF leaves -1 in the value slot, not 0, and \<^verbatim>\<open>mcp3221_read_raw\<close> returns
  \<^verbatim>\<open>-EINVAL\<close>.
\<close>

theorem failed_read_slot_not_zero:
  "sint (fst (bus (test_kernel [] (- 121, [0x0F, 0xFF]))
                  (xfers (test_kernel [] (- 121, [0x0F, 0xFF]))))) < 0
   \<and> mcp3221_read_raw test_dev (test_kernel [] (- 121, [0x0F, 0xFF])) (MCP3221_CHAN 0) 7 9
         IIO_CHAN_INFO_RAW =
       Some (- EINVAL, - 1, 9, test_dev,
             \<lparr>bus = scripted_bus [] (- 121, [0x0F, 0xFF]), xfers = 1,
               calls = [Mutex_lock, Master_recv 2, Mutex_unlock]\<rparr>)
   \<and> (- 1 :: s32) \<noteq> 0"
  by (simp add: mcp3221_read_raw_def mcp3221_read_channel_def mutex_lock_def
        mutex_unlock_def mcp3221_read_def i2c_master_recv_def test_kernel_def
        scripted_bus_def test_dev_def get_unaligned_be16_def sign_extend32_def
        IIO_CHAN_INFO_RAW_def)

text \<open>
  Claim C10, amended. When the receive fails (a negative return), the value slot is
  written all the same, before \<^verbatim>\<open>-EINVAL\<close> is returned: it gets the decoding of the
  receive buffer, which was zeroed and holds the bytes the failed receive stored, if
  any. When it stored none, the slot gets 0. In every read the value written does not
  depend on what the slot held.
\<close>

theorem failed_read_writes_decoded_buffer:
  assumes "\<not> lock (priv iio)" and "bus k (xfers k) = (ret, data)" and "sint ret < 0"
  shows "mcp3221_read (priv iio) k v1 =
           (ret,
            sign_extend32 (ucast (get_unaligned_be16
              (take (min 2 (length data)) data @ drop (min 2 (length data)) [0, 0, 0, 0]) 0)) 11,
            k\<lparr>xfers := Suc (xfers k), calls := calls k @ [Master_recv 2]\<rparr>)
         \<and> mcp3221_read_raw iio k chan v1 v2 IIO_CHAN_INFO_RAW =
             Some (- EINVAL,
                   sign_extend32 (ucast (get_unaligned_be16
                     (take (min 2 (length data)) data @ drop (min 2 (length data)) [0, 0, 0, 0])
                     0)) 11,
                   v2, iio,
                   k\<lparr>xfers := Suc (xfers k),
                     calls := calls k @ [Mutex_lock, Master_recv 2, Mutex_unlock]\<rparr>)
         \<and> (data = [] \<longrightarrow>
               mcp3221_read_raw iio k chan v1 v2 IIO_CHAN_INFO_RAW =
                 Some (- EINVAL, 0, v2, iio,
                       k\<lparr>xfers := Suc (xfers k),
                         calls := calls k @ [Mutex_lock, Master_recv 2, Mutex_unlock]\<rparr>))
         \<and> fst (snd (mcp3221_read adc kr v)) = fst (snd (mcp3221_read adc kr v'))"
proof -
  let ?n = "min 2 (length data)"
  let ?val = "sign_extend32 (ucast (get_unaligned_be16
                (take ?n data @ drop ?n [0, 0, 0, 0]) 0)) 11"
  have n: "min 2 (min (length data) (length [0, 0, 0, 0 :: u8])) = ?n"
    by simp
  have recv: "i2c_master_recv (i2c (priv iio)) k [0, 0, 0, 0] 2 =
           (ret, take ?n data @ drop ?n [0, 0, 0, 0],
            k\<lparr>xfers := Suc (xfers k), calls := calls k @ [Master_recv 2]\<rparr>)"
    unfolding i2c_master_recv_def assms(2)
    by (simp only: Let_def prod.case n)
  have rd: "mcp3221_read (priv iio) k v1 =
           (ret, ?val, k\<lparr>xfers := Suc (xfers k), calls := calls k @ [Master_recv 2]\<rparr>)"
    unfolding mcp3221_read_def
    by (simp only: Let_def recv prod.case)
  have raw: "mcp3221_read_raw iio k chan v1 v2 IIO_CHAN_INFO_RAW =
             Some (- EINVAL, ?val, v2, iio,
                   k\<lparr>xfers := Suc (xfers k),
                     calls := calls k @ [Mutex_lock, Master_recv 2, Mutex_unlock]\<rparr>)"
    by (simp only: mcp3221_read_raw_RAW_free [OF assms(1)] assms(2) rd fst_conv snd_conv
          assms(3) if_True)
  have zero: "data = [] \<longrightarrow> ?val = 0"
    by (simp add: get_unaligned_be16_def sign_extend32_def)
  have indep: "fst (snd (mcp3221_read adc kr v)) = fst (snd (mcp3221_read adc kr v'))"
    by (rule mcp3221_read_cong) simp_all
  from zero raw have z: "data = [] \<longrightarrow>
               mcp3221_read_raw iio k chan v1 v2 IIO_CHAN_INFO_RAW =
                 Some (- EINVAL, 0, v2, iio,
                       k\<lparr>xfers := Suc (xfers k),
                         calls := calls k @ [Mutex_lock, Master_recv 2, Mutex_unlock]\<rparr>)"
    by simp
  from rd raw z indep show ?thesis
    by (intro conjI)
qed

theorem failed_read_writes_decoded_buffer_witness:
  "\<not> lock (priv test_dev)
   \<and> bus (test_kernel [(- 121, [])] (- 121, [0x0F, 0xFF]))
         (xfers (test_kernel [(- 121, [])] (- 121, [0x0F, 0xFF]))) = (- 121, [])
   \<and> sint (- 121 :: s32) < 0
   \<and> mcp3221_read_raw test_dev (test_kernel [(- 121, [])] (- 121, [0x0F, 0xFF]))
         (MCP3221_CHAN 0) 7 9 IIO_CHAN_INFO_RAW =
       Some (- 22, 0, 9, test_dev,
             \<lparr>bus = scripted_bus [(- 121, [])] (- 121, [0x0F, 0xFF]), xfers = 1,
               calls = [Mutex_lock, Master_recv 2, Mutex_unlock]\<rparr>)
   \<and> bus \<lparr>bus = scripted_bus [(- 121, [])] (- 121, [0x0F, 0xFF]), xfers = 1,
           calls = [Mutex_lock, Master_recv 2, Mutex_unlock]\<rparr> 1 = (- 121, [0x0F, 0xFF])
   \<and> mcp3221_read_raw test_dev
         \<lparr>bus = scripted_bus [(- 121, [])] (- 121, [0x0F, 0xFF]), xfers = 1,
           calls = [Mutex_lock, Master_recv 2, Mutex_unlock]\<rparr>
         (MCP3221_CHAN 0) 0 9 IIO_CHAN_INFO_RAW =
       Some (- 22, - 1, 9, test_dev,
             \<lparr>bus = scripted_bus [(- 121, [])] (- 121, [0x0F, 0xFF]), xfers = 2,
               calls = [Mutex_lock, Master_recv 2, Mutex_unlock,
                        Mutex_lock, Master_recv 2, Mutex_unlock]\<rparr>)"
  using failed_read_writes_decoded_buffer
    [of test_dev "test_kernel [(- 121, [])] (- 121, [0x0F, 0xFF])" "- 121" "[]"
        7 "MCP3221_CHAN 0" 9]
    failed_read_writes_decoded_buffer
    [of test_dev "\<lparr>bus = scripted_bus [(- 121, [])] (- 121, [0x0F, 0xFF]), xfers = 1,
           calls = [Mutex_lock, Master_recv 2, Mutex_unlock]\<rparr>" "- 121" "[0x0F, 0xFF]"
        0 "MCP3221_CHAN 0" 9]
  by (simp add: test_kernel_def scripted_bus_def test_dev_def EINVAL_def
        get_unaligned_be16_def sign_extend32_def)

end
